theory Spec2Isabelle
  imports Main "HOL-Library.Word" "HOL-Library.Sublist"
begin

section \<open>The plugin manager of the CollabVM server (core/PluginManager.cpp)\<close>

text \<open>
  The plugin manager maps every entry of the \<^verbatim>\<open>plugins\<close> directory into the process as a
  shared library, shakes hands with it through four exported symbols and keeps the server
  plugin the library makes. The embedding below follows the translation unit function by
  function: \<^verbatim>\<open>PluginHandshake\<close>, \<^verbatim>\<open>HandlePluginLoad\<close>, \<^verbatim>\<open>PluginManager::Init\<close>,
  \<^verbatim>\<open>PluginManager::UnloadPlugins\<close> and \<^verbatim>\<open>PluginManager::LoadPlugin\<close>.
\<close>

subsection \<open>Data\<close>

text \<open>
  \<^verbatim>\<open>enum class PluginLoadError\<close>, with its six enumerators in the order of the source.
\<close>

datatype PluginLoadError =
  NoError
| NotPlugin
| AbiMismatch
| ExportNotFound
| NotServerPlugin
| NotCorePlugin

text \<open>
  A plugin instance is known to the host only as a pointer (\<^verbatim>\<open>plugin::IServerPlugin*\<close>);
  the source tests it with \<^verbatim>\<open>!plugin\<close>, so the null pointer is the address 0.
\<close>

type_synonym ptr = nat

definition nullptr :: ptr where
  "nullptr = 0"

text \<open>The four symbols the handshake looks up (each carries the prefix
  \<^verbatim>\<open>collabvm_plugin_\<close> in the source).\<close>

datatype export = abi_version | init_api | make_serverplugin | delete_serverplugin

text \<open>
  A \<^verbatim>\<open>boost::dll::shared_library\<close> as the handshake sees it: where it was loaded from, and
  for each of the four symbols whether the library exports it (\<open>None\<close>: it does not) and what
  the host observes of a call of it: \<^verbatim>\<open>collabvm_plugin_abi_version()\<close> returns a 32-bit
  integer, \<^verbatim>\<open>collabvm_plugin_make_serverplugin()\<close> returns a pointer, and the other two
  return nothing. The library code behind the exports is not part of the repository; it is a
  parameter here.
\<close>

record shared_library =
  location :: string
  collabvm_plugin_abi_version :: "32 word option"
  collabvm_plugin_init_api :: "unit option"
  collabvm_plugin_make_serverplugin :: "ptr option"
  collabvm_plugin_delete_serverplugin :: "unit option"

text \<open>The three \<^verbatim>\<open>spdlog\<close> calls of the file: \<^verbatim>\<open>spdlog::info\<close>, \<^verbatim>\<open>spdlog::warn\<close>,
  \<^verbatim>\<open>spdlog::error\<close>.\<close>

datatype spdlog_level = info | warn | error

text \<open>
  What a run does to the world outside the two global vectors, in the order it does it:
  entering one instantiation \<^verbatim>\<open>PluginHandshake<Core, Controller>\<close> (recorded so that the
  kinds a load tries can be read off a run), looking a symbol up, calling a looked-up
  symbol, writing a log line, and asking the file system to create the plugins directory.
\<close>

datatype event =
  Handshake bool bool
| Resolve export
| Invoke export
| Log spdlog_level string
| Create_directory

text \<open>
  The file's global state: \<^verbatim>\<open>g_PluginSos\<close> (a default-constructed, empty
  \<^verbatim>\<open>shared_library\<close> is \<open>None\<close>), \<^verbatim>\<open>g_ServerPlugins\<close>, a vector of bare
  \<^verbatim>\<open>IServerPlugin*\<close>, and the events so far.
\<close>

record host =
  g_PluginSos :: "shared_library option list"
  g_ServerPlugins :: "ptr list"
  trace :: "event list"

definition emit :: "event \<Rightarrow> host \<Rightarrow> host" where
  "emit e st = st\<lparr>trace := trace st @ [e]\<rparr>"

text \<open>
  How a call of a value-returning function ends: it returns a value; or control flows off
  its end without a \<^verbatim>\<open>return\<close>, which leaves the value (and, in C++, the behaviour of the
  caller that reads it) undefined; or an exception thrown by a library call leaves it, there
  being no handler anywhere in the file.
\<close>

datatype 'a outcome = Returns 'a | No_return_value | Uncaught_exception

subsection \<open>PluginHandshake\<close>

text \<open>
  \<^verbatim>\<open>template<bool CorePluginHandShake, bool ControllerPluginHandShake>
  PluginLoadError PluginHandshake(boost::dll::shared_library& so)\<close>.
  The two template arguments are the first two arguments here; \<open>abi\<close> is
  \<^verbatim>\<open>plugin::PLUGIN_ABI_VERSION\<close>, a constant of a header outside the given sources. Only the
  server instantiation (both flags false) looks at the factory pair; the bodies of the other
  two instantiations are comments (\<^verbatim>\<open>TODO\<close>), after which all three return \<open>NoError\<close>.

  Every symbol is looked up with \<^verbatim>\<open>so.get<T>(name)\<close>. For a function type \<open>T\<close> that call
  yields a reference to the exported function, and it throws
  \<^verbatim>\<open>boost::system::system_error\<close> when the library has no symbol of that name. What it
  yields is therefore never null: the tests \<^verbatim>\<open>if(!symbol)\<close> at lines 100, 111 and 121 never
  succeed, and the statements under them (\<^verbatim>\<open>return PluginLoadError::NotPlugin\<close> and twice
  \<^verbatim>\<open>return PluginLoadError::ExportNotFound\<close>) are never reached. The file has no handler,
  so the exception of a failed lookup ends the handshake, at the lookup that failed: a
  missing \<^verbatim>\<open>make_serverplugin\<close> is met before \<^verbatim>\<open>delete_serverplugin\<close> is looked up.
\<close>

definition PluginHandshake ::
  "bool \<Rightarrow> bool \<Rightarrow> 32 word \<Rightarrow> shared_library \<Rightarrow> host
    \<Rightarrow> PluginLoadError outcome \<times> host" where
  "PluginHandshake CorePluginHandShake ControllerPluginHandShake abi so st0 =
    (let st1 = emit (Handshake CorePluginHandShake ControllerPluginHandShake) st0;
         st2 = emit (Resolve abi_version) st1
     in case collabvm_plugin_abi_version so of
       None \<Rightarrow> (Uncaught_exception, st2)
     | Some reported \<Rightarrow>
        (let st3 = emit (Invoke abi_version) st2
         in if reported \<noteq> abi then (Returns AbiMismatch, st3)
            else
             (let st4 = emit (Resolve init_api) st3
              in case collabvm_plugin_init_api so of
                None \<Rightarrow> (Uncaught_exception, st4)
              | Some _ \<Rightarrow>
                 (let st5 = emit (Invoke init_api) st4
                  in if \<not> CorePluginHandShake \<and> \<not> ControllerPluginHandShake then
                       (let st6 = emit (Resolve make_serverplugin) st5
                        in case collabvm_plugin_make_serverplugin so of
                          None \<Rightarrow> (Uncaught_exception, st6)
                        | Some plugin \<Rightarrow>
                           (let st7 = emit (Resolve delete_serverplugin) st6
                            in case collabvm_plugin_delete_serverplugin so of
                              None \<Rightarrow> (Uncaught_exception, st7)
                            | Some _ \<Rightarrow>
                               (let st8 = emit (Invoke make_serverplugin) st7
                                in if plugin = nullptr then (Returns NotServerPlugin, st8)
                                   else (Returns NoError,
                                     st8\<lparr>g_ServerPlugins :=
                                       g_ServerPlugins st8 @ [plugin]\<rparr>))))
                     else (Returns NoError, st5)))))"

lemma PluginHandshake_NotServerPlugin:
  "PluginHandshake c k abi so st = (Returns NotServerPlugin, st') \<Longrightarrow> \<not> c \<and> \<not> k"
  by (auto simp: PluginHandshake_def Let_def split: option.splits if_splits)

lemma PluginHandshake_never_NotCorePlugin:
  "PluginHandshake c k abi so st \<noteq> (Returns NotCorePlugin, st')"
  by (auto simp: PluginHandshake_def Let_def split: option.splits if_splits)

lemma PluginHandshake_returns_or_throws:
  "PluginHandshake c k abi so st \<noteq> (No_return_value, st')"
  by (auto simp: PluginHandshake_def Let_def split: option.splits if_splits)

subsection \<open>HandlePluginLoad\<close>

text \<open>
  \<^verbatim>\<open>template<bool coreplugin, bool controllerplugin>
  PluginLoadError HandlePluginLoad(boost::dll::shared_library& so)\<close>.
  A handshake that ends in \<open>NotServerPlugin\<close> is followed by the core instantiation, one that
  ends in \<open>NotCorePlugin\<close> by the controller instantiation, and every other error is
  returned. When the handshake ends in \<open>NoError\<close> the function body ends without a
  \<^verbatim>\<open>return\<close> statement. An exception that leaves the handshake leaves this function too.
\<close>

function HandlePluginLoad ::
  "bool \<Rightarrow> bool \<Rightarrow> 32 word \<Rightarrow> shared_library \<Rightarrow> host
    \<Rightarrow> PluginLoadError outcome \<times> host" where
  "HandlePluginLoad coreplugin controllerplugin abi so st =
    (case PluginHandshake coreplugin controllerplugin abi so st of
       (Returns res, st') \<Rightarrow>
         if res \<noteq> NoError then
           (case res of
              NotServerPlugin \<Rightarrow> HandlePluginLoad True False abi so st'
            | NotCorePlugin \<Rightarrow> HandlePluginLoad False True abi so st'
            | _ \<Rightarrow> (Returns res, st'))
         else (No_return_value, st')
     | (No_return_value, st') \<Rightarrow> (No_return_value, st')
     | (Uncaught_exception, st') \<Rightarrow> (Uncaught_exception, st'))"
  by pat_completeness auto
termination
proof (relation "measure (\<lambda>(c, k, abi, so, st). if \<not> c \<and> \<not> k then 1 else 0)")
  show "wf (measure (\<lambda>(c :: bool, k :: bool, abi :: 32 word, so :: shared_library, st :: host).
      if \<not> c \<and> \<not> k then (1 :: nat) else 0))"
    by simp
next
  fix coreplugin controllerplugin :: bool and abi :: "32 word" and so :: shared_library
    and st st' :: host and r :: "PluginLoadError outcome" and res :: PluginLoadError
  assume "(r, st') = PluginHandshake coreplugin controllerplugin abi so st"
    and "r = Returns res" and "res = NotServerPlugin"
  then have "\<not> coreplugin \<and> \<not> controllerplugin"
    using PluginHandshake_NotServerPlugin [of coreplugin controllerplugin abi so st st'] by simp
  then show "((True, False, abi, so, st'), (coreplugin, controllerplugin, abi, so, st))
      \<in> measure (\<lambda>(c, k, abi, so, st). if \<not> c \<and> \<not> k then 1 else 0)"
    by simp
next
  fix coreplugin controllerplugin :: bool and abi :: "32 word" and so :: shared_library
    and st st' :: host and r :: "PluginLoadError outcome" and res :: PluginLoadError
  assume "(r, st') = PluginHandshake coreplugin controllerplugin abi so st"
    and "r = Returns res" and "res = NotCorePlugin"
  then have False
    using PluginHandshake_never_NotCorePlugin [of coreplugin controllerplugin abi so st st']
    by simp
  then show "((False, True, abi, so, st'), (coreplugin, controllerplugin, abi, so, st))
      \<in> measure (\<lambda>(c, k, abi, so, st). if \<not> c \<and> \<not> k then 1 else 0)"
    by simp
qed

declare HandlePluginLoad.simps [simp del]

subsection \<open>PluginManager::LoadPlugin, PluginManager::Init, PluginManager::UnloadPlugins\<close>

text \<open>
  A file \<open>Init\<close> finds in the plugins directory: one that
  \<^verbatim>\<open>boost::dll::shared_library(path.string())\<close> maps into the process, given as the library
  it yields (whose \<open>location\<close> is the path), or one that it cannot map, given by its path;
  for such a file the constructor throws \<^verbatim>\<open>boost::system::system_error\<close>.
\<close>

datatype candidate = Library shared_library | Not_a_library string

fun path_string :: "candidate \<Rightarrow> string" where
  "path_string (Library so) = location so"
| "path_string (Not_a_library path) = path"

text \<open>
  \<^verbatim>\<open>bool PluginManager::LoadPlugin(const std::filesystem::path& path)\<close>. The library is
  constructed before \<^verbatim>\<open>emplace_back\<close> stores it, so a file that cannot be mapped leaves
  \<^verbatim>\<open>g_PluginSos\<close> as it was. The \<^verbatim>\<open>switch\<close> has two cases and no default; every other
  value ends in \<^verbatim>\<open>return true\<close>. A result of \<open>HandlePluginLoad\<close> that is no value leaves
  the \<^verbatim>\<open>switch\<close> over it without a defined result as well, and an exception that leaves
  \<open>HandlePluginLoad\<close> leaves this function too.
\<close>

definition LoadPlugin :: "32 word \<Rightarrow> candidate \<Rightarrow> host \<Rightarrow> bool outcome \<times> host" where
  "LoadPlugin abi path st =
    (case path of
       Not_a_library _ \<Rightarrow> (Uncaught_exception, st)
     | Library so \<Rightarrow>
        (let st1 = st\<lparr>g_PluginSos := g_PluginSos st @ [Some so]\<rparr>
         in case HandlePluginLoad False False abi so st1 of
           (Returns res, st2) \<Rightarrow>
             (case res of
                ExportNotFound \<Rightarrow>
                  (Returns False,
                   emit (Log error (''plugin '' @ path_string path
                     @ '' is probably NOT a collabvm server plugin'')) st2)
              | AbiMismatch \<Rightarrow>
                  (Returns False,
                   emit (Log error (''plugin '' @ path_string path
                     @ '' has an mismatching CollabVM ABI version.'')) st2)
              | _ \<Rightarrow> (Returns True, st2))
         | (No_return_value, st2) \<Rightarrow> (No_return_value, st2)
         | (Uncaught_exception, st2) \<Rightarrow> (Uncaught_exception, st2)))"

text \<open>
  What the four \<^verbatim>\<open>std::filesystem\<close> calls of \<open>Init\<close> on
  \<^verbatim>\<open>current_path() / "plugins"\<close> yield in a run. \<open>Init\<close> uses the overloads without an
  \<^verbatim>\<open>error_code\<close>, which throw \<^verbatim>\<open>filesystem_error\<close> when the operating system refuses: \<open>None\<close>
  is that throw; \<open>Some b\<close> is \<^verbatim>\<open>create_directory\<close> returning \<open>b\<close>, and \<open>Some entries\<close> is the
  sequence of files the directory iterator walks.
\<close>

record filesystem =
  is_directory :: bool
  exists :: bool
  create_directory :: "bool option"
  directory_iterator :: "candidate list option"

text \<open>\<^verbatim>\<open>std::vector::resize(n)\<close>: cut down to \<open>n\<close> elements, or filled up with
  default-constructed ones.\<close>

definition resize :: "nat \<Rightarrow> 'a option list \<Rightarrow> 'a option list" where
  "resize n xs = take n xs @ replicate (n - length xs) None"

text \<open>The range-based \<^verbatim>\<open>for\<close> loop of \<open>Init\<close>, followed by its \<^verbatim>\<open>return true\<close>. An
  exception that leaves \<open>LoadPlugin\<close> ends the loop and leaves \<open>Init\<close>.\<close>

fun Init_loop :: "32 word \<Rightarrow> candidate list \<Rightarrow> host \<Rightarrow> bool outcome \<times> host" where
  "Init_loop abi [] st = (Returns True, st)"
| "Init_loop abi (it # rest) st =
    (let st1 = emit (Log info (''Going to load plugin '' @ path_string it)) st
     in case LoadPlugin abi it st1 of
       (Returns loaded, st2) \<Rightarrow>
         Init_loop abi rest
           (if \<not> loaded
            then emit (Log warn (''Plugin '' @ path_string it @ '' failed to load :('')) st2
            else st2)
     | (No_return_value, st2) \<Rightarrow> (No_return_value, st2)
     | (Uncaught_exception, st2) \<Rightarrow> (Uncaught_exception, st2))"

text \<open>\<^verbatim>\<open>bool PluginManager::Init()\<close>. The value of \<^verbatim>\<open>create_directory\<close> is not looked at.\<close>

definition Init :: "32 word \<Rightarrow> filesystem \<Rightarrow> host \<Rightarrow> bool outcome \<times> host" where
  "Init abi fs st0 =
    (let st1 = st0\<lparr>g_PluginSos := resize 5 (g_PluginSos st0)\<rparr>;
         missing = (\<not> is_directory fs \<or> \<not> exists fs);
         st2 = (if missing
                then emit Create_directory
                       (emit (Log info
                          ''PluginManager::Init: Plugins folder not found. Creating folder.'') st1)
                else st1)
     in if missing \<and> create_directory fs = None then (Uncaught_exception, st2)
        else case directory_iterator fs of
               None \<Rightarrow> (Uncaught_exception, st2)
             | Some entries \<Rightarrow> Init_loop abi entries st2)"

text \<open>\<^verbatim>\<open>void PluginManager::UnloadPlugins()\<close>: one log line (\<^verbatim>\<open>// TODO: implement me\<close>).\<close>

definition UnloadPlugins :: "host \<Rightarrow> host" where
  "UnloadPlugins st = emit (Log info ''PluginManager::UnloadPlugins: TODO'') st"

subsection \<open>Reading a run\<close>

text \<open>The events a run added to the trace, and the symbols looked up, the symbols called,
  the handshake instantiations entered and the lines logged among a list of events.\<close>

definition since :: "host \<Rightarrow> host \<Rightarrow> event list" where
  "since st st' = drop (length (trace st)) (trace st')"

fun resolved :: "event list \<Rightarrow> export list" where
  "resolved [] = []"
| "resolved (Resolve x # es) = x # resolved es"
| "resolved (_ # es) = resolved es"

fun invoked :: "event list \<Rightarrow> export list" where
  "invoked [] = []"
| "invoked (Invoke x # es) = x # invoked es"
| "invoked (_ # es) = invoked es"

fun handshakes :: "event list \<Rightarrow> (bool \<times> bool) list" where
  "handshakes [] = []"
| "handshakes (Handshake c k # es) = (c, k) # handshakes es"
| "handshakes (_ # es) = handshakes es"

fun logged :: "spdlog_level \<Rightarrow> event list \<Rightarrow> string list" where
  "logged l [] = []"
| "logged l (Log l' text # es) = (if l' = l then text # logged l es else logged l es)"
| "logged l (_ # es) = logged l es"

text \<open>The state at process start, and libraries used as concrete inputs below: one that
  exports nothing, one that reports ABI version 2, one without the factory pair, one whose
  factory returns null, and a well-formed server plugin whose factory returns the address
  4096.\<close>

definition startup :: host where
  "startup = \<lparr>g_PluginSos = [], g_ServerPlugins = [], trace = []\<rparr>"

definition lib_no_exports :: shared_library where
  "lib_no_exports =
    \<lparr>location = ''plugins/libm.so'', collabvm_plugin_abi_version = None,
     collabvm_plugin_init_api = None, collabvm_plugin_make_serverplugin = None,
     collabvm_plugin_delete_serverplugin = None\<rparr>"

definition lib_other_abi :: shared_library where
  "lib_other_abi =
    \<lparr>location = ''plugins/old.so'', collabvm_plugin_abi_version = Some 2,
     collabvm_plugin_init_api = Some (), collabvm_plugin_make_serverplugin = Some 4096,
     collabvm_plugin_delete_serverplugin = Some ()\<rparr>"

definition lib_no_factory :: shared_library where
  "lib_no_factory =
    \<lparr>location = ''plugins/core.so'', collabvm_plugin_abi_version = Some 1,
     collabvm_plugin_init_api = Some (), collabvm_plugin_make_serverplugin = None,
     collabvm_plugin_delete_serverplugin = None\<rparr>"

definition lib_null_factory :: shared_library where
  "lib_null_factory =
    \<lparr>location = ''plugins/null.so'', collabvm_plugin_abi_version = Some 1,
     collabvm_plugin_init_api = Some (), collabvm_plugin_make_serverplugin = Some nullptr,
     collabvm_plugin_delete_serverplugin = Some ()\<rparr>"

definition stub_server :: "string \<Rightarrow> shared_library" where
  "stub_server path =
    \<lparr>location = path, collabvm_plugin_abi_version = Some 1,
     collabvm_plugin_init_api = Some (), collabvm_plugin_make_serverplugin = Some 4096,
     collabvm_plugin_delete_serverplugin = Some ()\<rparr>"

text \<open>Three states of the working directory: a \<^verbatim>\<open>plugins\<close> directory with the given
  entries; none yet, and creating it works; none, and the operating system refuses to create
  it, so that \<^verbatim>\<open>create_directory\<close> throws.\<close>

definition plugins_dir :: "candidate list \<Rightarrow> filesystem" where
  "plugins_dir entries =
    \<lparr>is_directory = True, exists = True, create_directory = Some False,
     directory_iterator = Some entries\<rparr>"

definition fresh_dir :: filesystem where
  "fresh_dir =
    \<lparr>is_directory = False, exists = False, create_directory = Some True,
     directory_iterator = Some []\<rparr>"

definition uncreatable_dir :: filesystem where
  "uncreatable_dir =
    \<lparr>is_directory = False, exists = False, create_directory = None,
     directory_iterator = None\<rparr>"

section \<open>The configuration store (core/config/ConfigStore.hpp)\<close>

text \<open>
  The header that implements \<^verbatim>\<open>ConfigStore\<close> is not among the sources; only its test
  (test/core/ConfigStore.cpp) is. The store is therefore written down from the contract the
  specification gives for it: \<^verbatim>\<open>store[key].Exists()\<close>, \<^verbatim>\<open>.Set<T>(value)\<close>,
  \<^verbatim>\<open>.As<T>()\<close>, \<^verbatim>\<open>.Is<T>()\<close> and \<^verbatim>\<open>.Remove()\<close>, over the four value types the test uses
  (\<^verbatim>\<open>bool\<close>, \<^verbatim>\<open>std::string\<close>, \<^verbatim>\<open>std::uint64_t\<close>, \<^verbatim>\<open>std::int64_t\<close>).
\<close>

datatype config_value =
  Boolean bool
| Text string
| Unsigned64 "64 word"
| Signed64 "64 word"

datatype value_type = T_bool | T_string | T_uint64 | T_int64

datatype ConfigStore_error = NonExistentValue | InvalidType

type_synonym ConfigStore = "string \<rightharpoonup> config_value"

fun type_of :: "config_value \<Rightarrow> value_type" where
  "type_of (Boolean _) = T_bool"
| "type_of (Text _) = T_string"
| "type_of (Unsigned64 _) = T_uint64"
| "type_of (Signed64 _) = T_int64"

text \<open>Modelled from the spec: \<^verbatim>\<open>ConfigStore::operator[]\<close> with \<^verbatim>\<open>Exists()\<close> is missing from
  the sources. The spec: \<^verbatim>\<open>store[key].Exists()\<close> yields a boolean, true when a value is
  stored under the key.\<close>

definition Exists :: "ConfigStore \<Rightarrow> string \<Rightarrow> bool" where
  "Exists store key = (store key \<noteq> None)"

text \<open>Modelled from the spec: \<^verbatim>\<open>Set<T>(value)\<close> is missing from the sources. The spec:
  \<^verbatim>\<open>.Set<T>(value)\<close> stores the typed value under the key.\<close>

definition Set :: "ConfigStore \<Rightarrow> string \<Rightarrow> config_value \<Rightarrow> ConfigStore" where
  "Set store key v = store(key \<mapsto> v)"

text \<open>Modelled from the spec: \<^verbatim>\<open>As<T>()\<close> is missing from the sources. The spec:
  \<^verbatim>\<open>.As<T>()\<close> yields the value, and fails with \<open>NonExistentValue\<close> if absent or
  \<open>InvalidType\<close> if the stored type differs.\<close>

definition As ::
  "value_type \<Rightarrow> ConfigStore \<Rightarrow> string \<Rightarrow> ConfigStore_error + config_value" where
  "As T store key =
    (case store key of
       None \<Rightarrow> Inl NonExistentValue
     | Some v \<Rightarrow> if type_of v = T then Inr v else Inl InvalidType)"

text \<open>Modelled from the spec: \<^verbatim>\<open>Is<T>()\<close> is missing from the sources. The spec:
  \<^verbatim>\<open>.Is<T>()\<close> yields a boolean, true when the stored value has type \<open>T\<close>.\<close>

definition Is :: "value_type \<Rightarrow> ConfigStore \<Rightarrow> string \<Rightarrow> bool" where
  "Is T store key = (case store key of None \<Rightarrow> False | Some v \<Rightarrow> type_of v = T)"

text \<open>Modelled from the spec: \<^verbatim>\<open>Remove()\<close> is missing from the sources. The spec:
  \<^verbatim>\<open>.Remove()\<close> removes the value stored under the key.\<close>

definition Remove :: "ConfigStore \<Rightarrow> string \<Rightarrow> ConfigStore" where
  "Remove store key = store(key := None)"

section \<open>Properties of the plugin manager\<close>

subsection \<open>The runs of a load\<close>

lemma since_append [simp]: "since st (st'\<lparr>trace := trace st @ es\<rparr>) = es"
  by (simp add: since_def)

lemma since_append_more [simp]:
  "since st (st'\<lparr>trace := trace st @ es, g_ServerPlugins := ps\<rparr>) = es"
  by (simp add: since_def)

lemma HandlePluginLoad_core:
  "HandlePluginLoad True False abi so st =
    (case PluginHandshake True False abi so st of
       (Returns res, st') \<Rightarrow>
         if res \<noteq> NoError then (Returns res, st') else (No_return_value, st')
     | (No_return_value, st') \<Rightarrow> (No_return_value, st')
     | (Uncaught_exception, st') \<Rightarrow> (Uncaught_exception, st'))"
proof -
  obtain r st' where h: "PluginHandshake True False abi so st = (r, st')"
    by (cases "PluginHandshake True False abi so st")
  have "r \<noteq> Returns NotServerPlugin"
    using h PluginHandshake_NotServerPlugin [of True False abi so st st'] by auto
  moreover have "r \<noteq> Returns NotCorePlugin"
    using h PluginHandshake_never_NotCorePlugin [of True False abi so st st'] by auto
  ultimately show ?thesis
    using h
    by (subst HandlePluginLoad.simps)
       (auto split: outcome.splits PluginLoadError.splits)
qed

lemma HandlePluginLoad_server:
  "HandlePluginLoad False False abi so st =
    (case PluginHandshake False False abi so st of
       (Returns res, st') \<Rightarrow>
         if res = NoError then (No_return_value, st')
         else if res = NotServerPlugin then HandlePluginLoad True False abi so st'
         else (Returns res, st')
     | (No_return_value, st') \<Rightarrow> (No_return_value, st')
     | (Uncaught_exception, st') \<Rightarrow> (Uncaught_exception, st'))"
proof -
  obtain r st' where h: "PluginHandshake False False abi so st = (r, st')"
    by (cases "PluginHandshake False False abi so st")
  have "r \<noteq> Returns NotCorePlugin"
    using h PluginHandshake_never_NotCorePlugin [of False False abi so st st'] by auto
  then show ?thesis
    using h
    by (subst HandlePluginLoad.simps)
       (auto split: outcome.splits PluginLoadError.splits)
qed

text \<open>The seven runs of a load, by what the library exports.\<close>

lemma load_without_abi_version:
  assumes "collabvm_plugin_abi_version so = None"
  shows "HandlePluginLoad False False abi so st =
    (Uncaught_exception,
     st\<lparr>trace := trace st @ [Handshake False False, Resolve abi_version]\<rparr>)"
  using assms by (simp add: HandlePluginLoad_server PluginHandshake_def emit_def)

lemma load_with_other_abi:
  assumes "collabvm_plugin_abi_version so = Some reported" and "reported \<noteq> abi"
  shows "HandlePluginLoad False False abi so st =
    (Returns AbiMismatch,
     st\<lparr>trace := trace st @ [Handshake False False, Resolve abi_version, Invoke abi_version]\<rparr>)"
  using assms by (simp add: HandlePluginLoad_server PluginHandshake_def emit_def)

lemma load_without_init_api:
  assumes "collabvm_plugin_abi_version so = Some abi"
    and "collabvm_plugin_init_api so = None"
  shows "HandlePluginLoad False False abi so st =
    (Uncaught_exception,
     st\<lparr>trace := trace st @ [Handshake False False, Resolve abi_version, Invoke abi_version,
       Resolve init_api]\<rparr>)"
  using assms by (simp add: HandlePluginLoad_server PluginHandshake_def emit_def)

lemma load_without_factory:
  assumes "collabvm_plugin_abi_version so = Some abi"
    and "collabvm_plugin_init_api so = Some u"
    and "collabvm_plugin_make_serverplugin so = None"
  shows "HandlePluginLoad False False abi so st =
    (Uncaught_exception,
     st\<lparr>trace := trace st @ [Handshake False False, Resolve abi_version, Invoke abi_version,
       Resolve init_api, Invoke init_api, Resolve make_serverplugin]\<rparr>)"
  using assms by (simp add: HandlePluginLoad_server PluginHandshake_def emit_def)

lemma load_without_destructor:
  assumes "collabvm_plugin_abi_version so = Some abi"
    and "collabvm_plugin_init_api so = Some u"
    and "collabvm_plugin_make_serverplugin so = Some plugin"
    and "collabvm_plugin_delete_serverplugin so = None"
  shows "HandlePluginLoad False False abi so st =
    (Uncaught_exception,
     st\<lparr>trace := trace st @ [Handshake False False, Resolve abi_version, Invoke abi_version,
       Resolve init_api, Invoke init_api, Resolve make_serverplugin,
       Resolve delete_serverplugin]\<rparr>)"
  using assms by (simp add: HandlePluginLoad_server PluginHandshake_def emit_def)

lemma load_with_null_factory:
  assumes "collabvm_plugin_abi_version so = Some abi"
    and "collabvm_plugin_init_api so = Some u"
    and "collabvm_plugin_make_serverplugin so = Some nullptr"
    and "collabvm_plugin_delete_serverplugin so = Some d"
  shows "HandlePluginLoad False False abi so st =
    (No_return_value,
     st\<lparr>trace := trace st @ [Handshake False False, Resolve abi_version, Invoke abi_version,
       Resolve init_api, Invoke init_api, Resolve make_serverplugin,
       Resolve delete_serverplugin, Invoke make_serverplugin,
       Handshake True False, Resolve abi_version, Invoke abi_version,
       Resolve init_api, Invoke init_api]\<rparr>)"
  using assms
  by (simp add: HandlePluginLoad_server HandlePluginLoad_core PluginHandshake_def emit_def)

lemma load_with_plugin:
  assumes "collabvm_plugin_abi_version so = Some abi"
    and "collabvm_plugin_init_api so = Some u"
    and "collabvm_plugin_make_serverplugin so = Some plugin"
    and "plugin \<noteq> nullptr"
    and "collabvm_plugin_delete_serverplugin so = Some d"
  shows "HandlePluginLoad False False abi so st =
    (No_return_value,
     st\<lparr>trace := trace st @ [Handshake False False, Resolve abi_version, Invoke abi_version,
       Resolve init_api, Invoke init_api, Resolve make_serverplugin,
       Resolve delete_serverplugin, Invoke make_serverplugin],
       g_ServerPlugins := g_ServerPlugins st @ [plugin]\<rparr>)"
  using assms
  by (simp add: HandlePluginLoad_server PluginHandshake_def emit_def)

text \<open>What every load has in common, whatever the library exports: the handshake
  instantiations it enters, the calls it makes into the library, how it ends and what it
  does to the vector of server plugins.\<close>

lemma load_handshakes:
  "handshakes (since st (snd (HandlePluginLoad False False abi so st)))
     \<in> {[(False, False)], [(False, False), (True, False)]}"
  by (auto simp: HandlePluginLoad_server HandlePluginLoad_core PluginHandshake_def emit_def
      Let_def split: option.splits)

lemma load_invoked:
  "invoked (since st (snd (HandlePluginLoad False False abi so st)))
     \<in> {[], [abi_version], [abi_version, init_api],
         [abi_version, init_api, make_serverplugin],
         [abi_version, init_api, make_serverplugin, abi_version, init_api]}"
  by (auto simp: HandlePluginLoad_server HandlePluginLoad_core PluginHandshake_def emit_def
      Let_def split: option.splits)

lemma load_returns:
  "fst (HandlePluginLoad False False abi so st)
     \<in> {Returns AbiMismatch, No_return_value, Uncaught_exception}"
  by (auto simp: HandlePluginLoad_server HandlePluginLoad_core PluginHandshake_def emit_def
      Let_def split: option.splits)

lemma load_registry:
  "g_ServerPlugins (snd (HandlePluginLoad False False abi so st)) =
     g_ServerPlugins st @
       (case collabvm_plugin_make_serverplugin so of
          None \<Rightarrow> []
        | Some plugin \<Rightarrow>
            if collabvm_plugin_abi_version so = Some abi
               \<and> collabvm_plugin_init_api so \<noteq> None
               \<and> collabvm_plugin_delete_serverplugin so \<noteq> None \<and> plugin \<noteq> nullptr
            then [plugin] else [])"
  by (auto simp: HandlePluginLoad_server HandlePluginLoad_core PluginHandshake_def emit_def
      Let_def split: option.splits)

subsection \<open>A library without the ABI symbol\<close>

text \<open>
  Claim C4. For every module that lacks the \<^verbatim>\<open>abi_version\<close> export, the outcome of the
  handshake is NotAPlugin, and no export other than \<^verbatim>\<open>abi_version\<close> is resolved during
  that module's handshake. The second half holds of the code: the load looks up that one
  symbol, calls nothing, enters the handshake once and leaves the plugin vector as it was.
  The first half does not: the lookup at line 98 throws for the missing symbol, the
  \<^verbatim>\<open>return PluginLoadError::NotPlugin\<close> written under it at line 101 is never reached, and
  the handshake, \<open>HandlePluginLoad\<close> and \<open>LoadPlugin\<close> all end in the uncaught exception
  instead of the outcome \<open>NotPlugin\<close>.
\<close>

theorem C4_missing_abi_version_throws:
  assumes "collabvm_plugin_abi_version so = None"
  shows "fst (PluginHandshake False False abi so st) = Uncaught_exception
    \<and> fst (HandlePluginLoad False False abi so st) = Uncaught_exception
    \<and> fst (HandlePluginLoad False False abi so st) \<noteq> Returns NotPlugin
    \<and> fst (LoadPlugin abi (Library so) st) = Uncaught_exception
    \<and> resolved (since st (snd (HandlePluginLoad False False abi so st))) = [abi_version]
    \<and> invoked (since st (snd (HandlePluginLoad False False abi so st))) = []
    \<and> handshakes (since st (snd (HandlePluginLoad False False abi so st))) = [(False, False)]
    \<and> g_ServerPlugins (snd (HandlePluginLoad False False abi so st)) = g_ServerPlugins st"
  using assms
  by (simp add: load_without_abi_version [OF assms] PluginHandshake_def LoadPlugin_def)

theorem C4_missing_abi_version_witness:
  "collabvm_plugin_abi_version lib_no_exports = None
   \<and> fst (HandlePluginLoad False False 1 lib_no_exports startup) = Uncaught_exception
   \<and> resolved (since startup (snd (HandlePluginLoad False False 1 lib_no_exports startup)))
       = [abi_version]"
  using C4_missing_abi_version_throws [of lib_no_exports 1 startup]
  by (simp add: lib_no_exports_def)

subsection \<open>A library built against another ABI\<close>

text \<open>
  Claim C3. For every module whose \<^verbatim>\<open>abi_version\<close> export returns a value different from
  the host's compiled ABI version, the outcome of the handshake is \<open>AbiMismatch\<close>, it is
  final (the load returns it after this one handshake), and the module's \<^verbatim>\<open>init_api\<close>
  export is neither resolved nor invoked: \<^verbatim>\<open>abi_version\<close> is the only symbol looked up and
  the only one called.
\<close>

theorem C3_other_abi_version_is_AbiMismatch:
  assumes "collabvm_plugin_abi_version so = Some reported" and "reported \<noteq> abi"
  shows "fst (PluginHandshake False False abi so st) = Returns AbiMismatch
    \<and> fst (HandlePluginLoad False False abi so st) = Returns AbiMismatch
    \<and> resolved (since st (snd (HandlePluginLoad False False abi so st))) = [abi_version]
    \<and> invoked (since st (snd (HandlePluginLoad False False abi so st))) = [abi_version]
    \<and> init_api \<notin> set (resolved (since st (snd (HandlePluginLoad False False abi so st))))
    \<and> init_api \<notin> set (invoked (since st (snd (HandlePluginLoad False False abi so st))))
    \<and> handshakes (since st (snd (HandlePluginLoad False False abi so st))) = [(False, False)]
    \<and> g_ServerPlugins (snd (HandlePluginLoad False False abi so st)) = g_ServerPlugins st"
  using assms by (simp add: load_with_other_abi [OF assms] PluginHandshake_def Let_def)

theorem C3_other_abi_version_witness:
  "collabvm_plugin_abi_version lib_other_abi = Some 2 \<and> (2 :: 32 word) \<noteq> 1
   \<and> fst (HandlePluginLoad False False 1 lib_other_abi startup) = Returns AbiMismatch
   \<and> init_api \<notin> set (invoked (since startup
        (snd (HandlePluginLoad False False 1 lib_other_abi startup))))"
  using C3_other_abi_version_is_AbiMismatch [of lib_other_abi 2 1 startup]
  by (simp add: lib_other_abi_def)

subsection \<open>The order of the handshakes\<close>

text \<open>
  A handshake instantiation is named by its two template arguments: \<open>(False, False)\<close> is the
  server handshake, \<open>(True, False)\<close> the core handshake and \<open>(False, True)\<close> the controller
  handshake.

  Claim C1 as stated does not hold of the code. A library that passes the ABI check and has
  \<^verbatim>\<open>init_api\<close> but lacks the factory/destructor pair is not handed on to another kind: the
  load ends within the server handshake, no value being returned. A library whose factory
  returns null is handshaken once more, as core, and never as controller.
\<close>

theorem C1_missing_pair_does_not_advance:
  "collabvm_plugin_make_serverplugin lib_no_factory = None
   \<and> collabvm_plugin_delete_serverplugin lib_no_factory = None
   \<and> fst (HandlePluginLoad False False 1 lib_no_factory startup) = Uncaught_exception
   \<and> handshakes (since startup (snd (HandlePluginLoad False False 1 lib_no_factory startup)))
       = [(False, False)]
   \<and> collabvm_plugin_make_serverplugin lib_null_factory = Some nullptr
   \<and> handshakes (since startup (snd (HandlePluginLoad False False 1 lib_null_factory startup)))
       = [(False, False), (True, False)]
   \<and> (False, True) \<notin> set (handshakes (since startup
        (snd (HandlePluginLoad False False 1 lib_null_factory startup))))"
  by (simp add: lib_no_factory_def lib_null_factory_def load_without_factory
      load_with_null_factory)

text \<open>
  Claim C1, amended. Every load starts with the server handshake and enters the handshakes
  in the fixed order server, core, controller, each at most once. For a library that passes
  the ABI check and exports \<^verbatim>\<open>init_api\<close>: if both exports of the factory pair resolve and
  the factory returns null, the handshake entered next is the core one; if an export of the
  pair is missing, no other kind is tried, the load ending within the server handshake with
  nothing registered. No load returns a rejection: the type of the outcomes has no such
  value, and the two wrong-kind values \<open>NotServerPlugin\<close> and \<open>NotCorePlugin\<close> are never
  what a load returns.
\<close>

theorem C1_server_then_core_missing_pair_final:
  "handshakes (since st (snd (HandlePluginLoad False False abi so st))) \<noteq> []
   \<and> prefix (handshakes (since st (snd (HandlePluginLoad False False abi so st))))
        [(False, False), (True, False), (False, True)]
   \<and> (collabvm_plugin_abi_version so = Some abi \<and> collabvm_plugin_init_api so \<noteq> None
        \<and> collabvm_plugin_make_serverplugin so = Some nullptr
        \<and> collabvm_plugin_delete_serverplugin so \<noteq> None
      \<longrightarrow> take 2 (handshakes (since st (snd (HandlePluginLoad False False abi so st))))
            = [(False, False), (True, False)])
   \<and> (collabvm_plugin_abi_version so = Some abi \<and> collabvm_plugin_init_api so \<noteq> None
        \<and> (collabvm_plugin_make_serverplugin so = None
             \<or> collabvm_plugin_delete_serverplugin so = None)
      \<longrightarrow> handshakes (since st (snd (HandlePluginLoad False False abi so st)))
            = [(False, False)]
          \<and> g_ServerPlugins (snd (HandlePluginLoad False False abi so st))
            = g_ServerPlugins st)
   \<and> (\<forall>e. fst (HandlePluginLoad False False abi so st) = Returns e
        \<longrightarrow> e \<noteq> NotServerPlugin \<and> e \<noteq> NotCorePlugin)"
proof (intro conjI impI allI)
  show "handshakes (since st (snd (HandlePluginLoad False False abi so st))) \<noteq> []"
    using load_handshakes [of st abi so] by auto
next
  show "prefix (handshakes (since st (snd (HandlePluginLoad False False abi so st))))
        [(False, False), (True, False), (False, True)]"
    using load_handshakes [of st abi so] by auto
next
  assume "collabvm_plugin_abi_version so = Some abi \<and> collabvm_plugin_init_api so \<noteq> None
        \<and> collabvm_plugin_make_serverplugin so = Some nullptr
        \<and> collabvm_plugin_delete_serverplugin so \<noteq> None"
  then show "take 2 (handshakes (since st (snd (HandlePluginLoad False False abi so st))))
            = [(False, False), (True, False)]"
    by (auto simp: load_with_null_factory)
next
  assume a: "collabvm_plugin_abi_version so = Some abi \<and> collabvm_plugin_init_api so \<noteq> None
        \<and> (collabvm_plugin_make_serverplugin so = None
             \<or> collabvm_plugin_delete_serverplugin so = None)"
  then obtain u where u: "collabvm_plugin_init_api so = Some u"
    by auto
  show "handshakes (since st (snd (HandlePluginLoad False False abi so st))) = [(False, False)]"
  proof (cases "collabvm_plugin_make_serverplugin so")
    case None
    then show ?thesis
      using a u by (simp add: load_without_factory)
  next
    case (Some plugin)
    then have "collabvm_plugin_delete_serverplugin so = None"
      using a by auto
    then show ?thesis
      using a u Some by (simp add: load_without_destructor)
  qed
  show "g_ServerPlugins (snd (HandlePluginLoad False False abi so st)) = g_ServerPlugins st"
    using a by (auto simp: load_registry split: option.splits)
next
  fix e
  assume "fst (HandlePluginLoad False False abi so st) = Returns e"
  then show "e \<noteq> NotServerPlugin"
    using load_returns [of abi so st] by auto
next
  fix e
  assume "fst (HandlePluginLoad False False abi so st) = Returns e"
  then show "e \<noteq> NotCorePlugin"
    using load_returns [of abi so st] by auto
qed

theorem C1_server_then_core_witness:
  "take 2 (handshakes (since startup
      (snd (HandlePluginLoad False False 1 lib_null_factory startup))))
       = [(False, False), (True, False)]
   \<and> handshakes (since startup (snd (HandlePluginLoad False False 1 lib_no_factory startup)))
       = [(False, False)]
   \<and> g_ServerPlugins (snd (HandlePluginLoad False False 1 lib_no_factory startup)) = []"
  using C1_server_then_core_missing_pair_final [of startup 1 lib_null_factory]
    C1_server_then_core_missing_pair_final [of startup 1 lib_no_factory]
  by (simp add: lib_null_factory_def lib_no_factory_def startup_def)

subsection \<open>The calls into the library\<close>

text \<open>
  Claim C2 as stated does not hold of the code: when the factory of a library returns null,
  the load calls \<^verbatim>\<open>init_api\<close> of that library twice, once in the server handshake and once
  more in the core handshake that follows it.
\<close>

theorem C2_init_api_invoked_twice:
  "count_list (invoked (since startup
      (snd (HandlePluginLoad False False 1 lib_null_factory startup)))) init_api = 2"
  by (simp add: lib_null_factory_def load_with_null_factory)

text \<open>
  Claim C2, amended. In a single load of a module, \<^verbatim>\<open>init_api\<close> is invoked at most once
  per handshake entered, hence at most twice; the factory export is invoked at most once;
  and when the factory is invoked, \<^verbatim>\<open>init_api\<close> has been invoked before it.
\<close>

theorem C2_init_api_once_per_handshake:
  "count_list (invoked (since st (snd (HandlePluginLoad False False abi so st)))) init_api
      \<le> length (handshakes (since st (snd (HandlePluginLoad False False abi so st))))
   \<and> count_list (invoked (since st (snd (HandlePluginLoad False False abi so st)))) init_api
      \<le> 2
   \<and> count_list (invoked (since st (snd (HandlePluginLoad False False abi so st))))
        make_serverplugin \<le> 1
   \<and> (make_serverplugin
        \<in> set (invoked (since st (snd (HandlePluginLoad False False abi so st))))
      \<longrightarrow> init_api \<in> set (takeWhile (\<lambda>x. x \<noteq> make_serverplugin)
            (invoked (since st (snd (HandlePluginLoad False False abi so st))))))"
  by (auto simp: HandlePluginLoad_server HandlePluginLoad_core PluginHandshake_def emit_def
      Let_def split: option.splits)

theorem C2_init_api_witness:
  "make_serverplugin \<in> set (invoked (since startup
      (snd (HandlePluginLoad False False 1 (stub_server ''plugins/stub.so'') startup))))
   \<and> init_api \<in> set (takeWhile (\<lambda>x. x \<noteq> make_serverplugin) (invoked (since startup
      (snd (HandlePluginLoad False False 1 (stub_server ''plugins/stub.so'') startup)))))
   \<and> count_list (invoked (since startup
      (snd (HandlePluginLoad False False 1 (stub_server ''plugins/stub.so'') startup))))
        init_api = 1"
  using C2_init_api_once_per_handshake [of startup 1 "stub_server ''plugins/stub.so''"]
  by (simp add: stub_server_def load_with_plugin nullptr_def)

subsection \<open>The vector of server plugins\<close>

lemma LoadPlugin_registry:
  "g_ServerPlugins (snd (LoadPlugin abi (Library so) st)) =
   g_ServerPlugins (snd (HandlePluginLoad False False abi so
      (st\<lparr>g_PluginSos := g_PluginSos st @ [Some so]\<rparr>)))"
  by (auto simp: LoadPlugin_def Let_def emit_def split: prod.splits outcome.splits
      PluginLoadError.splits)

text \<open>
  Claim C5 as stated does not hold of the code: \<^verbatim>\<open>g_ServerPlugins\<close> holds the bare
  pointers. Loading either of two different libraries whose factories return the same
  address leaves the same vector; nothing in it says which library, or which destructor
  export, an entry belongs to.
\<close>

theorem C5_registry_does_not_record_owner:
  "stub_server ''plugins/a.so'' \<noteq> stub_server ''plugins/b.so''
   \<and> g_ServerPlugins (snd (LoadPlugin 1 (Library (stub_server ''plugins/a.so'')) startup)) = [4096]
   \<and> g_ServerPlugins (snd (LoadPlugin 1 (Library (stub_server ''plugins/b.so'')) startup)) = [4096]"
  by (simp add: LoadPlugin_registry load_registry stub_server_def startup_def nullptr_def)

text \<open>
  Claim C5, amended. A handle is registered only for a library whose own destructor export
  resolved, and it is stored alone: \<open>LoadPlugin\<close> appends to \<^verbatim>\<open>g_ServerPlugins\<close> exactly the
  pointer that the library's factory returned, and it does so exactly when the library passed
  the ABI check, its \<^verbatim>\<open>init_api\<close>, factory and destructor exports all resolved, and the
  pointer is not null; otherwise the vector is left as it was.
\<close>

theorem C5_registry_holds_bare_handles:
  "g_ServerPlugins (snd (LoadPlugin abi (Library so) st)) =
     g_ServerPlugins st @
       (case collabvm_plugin_make_serverplugin so of
          None \<Rightarrow> []
        | Some plugin \<Rightarrow>
            if collabvm_plugin_abi_version so = Some abi
               \<and> collabvm_plugin_init_api so \<noteq> None
               \<and> collabvm_plugin_delete_serverplugin so \<noteq> None \<and> plugin \<noteq> nullptr
            then [plugin] else [])"
  by (simp add: LoadPlugin_registry load_registry)

theorem C5_registry_witness:
  "g_ServerPlugins (snd (LoadPlugin 1 (Library lib_null_factory) startup)) = []
   \<and> g_ServerPlugins (snd (LoadPlugin 1 (Library lib_no_factory) startup)) = []
   \<and> g_ServerPlugins (snd (LoadPlugin 1 (Library (stub_server ''plugins/stub.so''))
        (startup\<lparr>g_ServerPlugins := [8192]\<rparr>))) = [8192, 4096]"
  using C5_registry_holds_bare_handles [of 1 lib_null_factory startup]
    C5_registry_holds_bare_handles [of 1 lib_no_factory startup]
    C5_registry_holds_bare_handles [of 1 "stub_server ''plugins/stub.so''"
      "startup\<lparr>g_ServerPlugins := [8192]\<rparr>"]
  by (simp add: lib_null_factory_def lib_no_factory_def stub_server_def startup_def
      nullptr_def)

text \<open>
  Claim C7 as stated does not hold of the code: a second handshake with the same library,
  whose factory returns the same handle, returns \<open>NoError\<close> again and stores the handle a
  second time.
\<close>

theorem C7_duplicate_is_stored_twice:
  "fst (PluginHandshake False False 1 (stub_server ''plugins/stub.so'')
          (snd (PluginHandshake False False 1 (stub_server ''plugins/stub.so'') startup)))
     = Returns NoError
   \<and> g_ServerPlugins
        (snd (PluginHandshake False False 1 (stub_server ''plugins/stub.so'') startup))
     = [4096]
   \<and> g_ServerPlugins (snd (PluginHandshake False False 1 (stub_server ''plugins/stub.so'')
          (snd (PluginHandshake False False 1 (stub_server ''plugins/stub.so'') startup))))
     = [4096, 4096]"
  by (simp add: PluginHandshake_def stub_server_def startup_def nullptr_def emit_def)

text \<open>
  Claim C7, amended. Registration is an unconditional append: a server handshake with a
  library that passes the ABI check, exports \<^verbatim>\<open>init_api\<close> and the factory pair and whose
  factory returns a non-null handle returns \<open>NoError\<close> and appends the handle to
  \<^verbatim>\<open>g_ServerPlugins\<close> whatever the vector holds already, so that the handle occurs in it
  once more than before. There is no duplicate-registration error.
\<close>

theorem C7_registration_appends_unconditionally:
  assumes "collabvm_plugin_abi_version so = Some abi"
    and "collabvm_plugin_init_api so = Some u"
    and "collabvm_plugin_make_serverplugin so = Some plugin"
    and "plugin \<noteq> nullptr"
    and "collabvm_plugin_delete_serverplugin so = Some d"
  shows "fst (PluginHandshake False False abi so st) = Returns NoError
    \<and> g_ServerPlugins (snd (PluginHandshake False False abi so st))
        = g_ServerPlugins st @ [plugin]
    \<and> count_list (g_ServerPlugins (snd (PluginHandshake False False abi so st))) plugin
        = Suc (count_list (g_ServerPlugins st) plugin)"
  using assms by (simp add: PluginHandshake_def emit_def Let_def)

theorem C7_registration_witness:
  "collabvm_plugin_make_serverplugin (stub_server ''plugins/stub.so'') = Some 4096
   \<and> 4096 \<in> set (g_ServerPlugins (startup\<lparr>g_ServerPlugins := [4096]\<rparr>))
   \<and> fst (PluginHandshake False False 1 (stub_server ''plugins/stub.so'')
        (startup\<lparr>g_ServerPlugins := [4096]\<rparr>)) = Returns NoError
   \<and> count_list (g_ServerPlugins (snd (PluginHandshake False False 1
        (stub_server ''plugins/stub.so'') (startup\<lparr>g_ServerPlugins := [4096]\<rparr>)))) 4096 = 2"
  using C7_registration_appends_unconditionally [of "stub_server ''plugins/stub.so''" 1 "()"
      4096 "()" "startup\<lparr>g_ServerPlugins := [4096]\<rparr>"]
  by (simp add: stub_server_def startup_def nullptr_def)

subsection \<open>Unloading\<close>

lemma UnloadPlugins_effect:
  "UnloadPlugins st =
    st\<lparr>trace := trace st @ [Log info ''PluginManager::UnloadPlugins: TODO'']\<rparr>"
  by (simp add: UnloadPlugins_def emit_def)

lemma LoadPlugin_stub:
  "LoadPlugin 1 (Library (stub_server path)) startup =
    (No_return_value,
     \<lparr>g_PluginSos = [Some (stub_server path)], g_ServerPlugins = [4096],
      trace = [Handshake False False, Resolve abi_version, Invoke abi_version,
       Resolve init_api, Invoke init_api, Resolve make_serverplugin,
       Resolve delete_serverplugin, Invoke make_serverplugin]\<rparr>)"
proof -
  define st1 where "st1 = startup\<lparr>g_PluginSos := g_PluginSos startup @ [Some (stub_server path)]\<rparr>"
  have "HandlePluginLoad False False 1 (stub_server path) st1 =
    (No_return_value,
     st1\<lparr>trace := trace st1 @ [Handshake False False, Resolve abi_version, Invoke abi_version,
       Resolve init_api, Invoke init_api, Resolve make_serverplugin,
       Resolve delete_serverplugin, Invoke make_serverplugin],
       g_ServerPlugins := g_ServerPlugins st1 @ [4096]\<rparr>)"
    by (rule load_with_plugin [where u = "()" and d = "()"])
       (simp_all add: stub_server_def nullptr_def)
  then show ?thesis
    by (simp add: LoadPlugin_def startup_def st1_def)
qed

text \<open>
  Claim C6. Calling UnloadAll invokes each stored destructor exactly once, in reverse
  insertion order, continuing past a failure, and then releases each loaded library; after
  loading one stub server plugin it invokes the recorded destructor exactly once. The code
  does not do this: \<open>UnloadPlugins\<close> writes one log line and nothing else. From any state it
  calls nothing and leaves both vectors as they are; after the stub server plugin has been
  loaded, its handle is registered, and across the load and \<open>UnloadPlugins\<close> the destructor
  export is invoked zero times, the handle stays registered and the library stays loaded.
\<close>

theorem C6_UnloadPlugins_invokes_no_destructor:
  "invoked (since st (UnloadPlugins st)) = []
   \<and> g_ServerPlugins (UnloadPlugins st) = g_ServerPlugins st
   \<and> g_PluginSos (UnloadPlugins st) = g_PluginSos st
   \<and> g_ServerPlugins (snd (LoadPlugin 1 (Library (stub_server ''plugins/stub.so'')) startup)) = [4096]
   \<and> count_list (invoked (trace (UnloadPlugins
        (snd (LoadPlugin 1 (Library (stub_server ''plugins/stub.so'')) startup))))) delete_serverplugin
       = 0
   \<and> g_ServerPlugins (UnloadPlugins
        (snd (LoadPlugin 1 (Library (stub_server ''plugins/stub.so'')) startup))) = [4096]
   \<and> g_PluginSos (UnloadPlugins
        (snd (LoadPlugin 1 (Library (stub_server ''plugins/stub.so'')) startup)))
       = [Some (stub_server ''plugins/stub.so'')]"
  by (simp add: UnloadPlugins_effect LoadPlugin_stub since_def)

subsection \<open>Initialization\<close>

lemma LoadPlugin_no_exports:
  "LoadPlugin abi (Library lib_no_exports) st =
    (Uncaught_exception,
     st\<lparr>g_PluginSos := g_PluginSos st @ [Some lib_no_exports],
        trace := trace st @ [Handshake False False, Resolve abi_version]\<rparr>)"
  by (simp add: LoadPlugin_def load_without_abi_version lib_no_exports_def)

lemma LoadPlugin_other_abi:
  "LoadPlugin 1 (Library lib_other_abi) st =
    (Returns False,
     st\<lparr>g_PluginSos := g_PluginSos st @ [Some lib_other_abi],
        trace := trace st @ [Handshake False False, Resolve abi_version, Invoke abi_version,
          Log error ''plugin plugins/old.so has an mismatching CollabVM ABI version.'']\<rparr>)"
  by (simp add: LoadPlugin_def load_with_other_abi [where reported = 2] lib_other_abi_def
      emit_def)

text \<open>
  Claim C8. For every module whose load or handshake ends in a non-success outcome, the
  error is caught at the module boundary, exactly one warning naming the module's path is
  emitted, and the error never propagates out of or aborts the host's initialization, which
  goes on with the modules that did load. The code does this for a library with another
  ABI version: \<open>LoadPlugin\<close> returns false, \<open>Init\<close> logs its one warning and returns true.
  It does not for a file that cannot be mapped as a library, nor for a library that lacks
  the ABI symbol: the constructor at line 190, or the lookup at line 98, throws, nothing in
  the file catches the exception, and it leaves \<open>LoadPlugin\<close> and \<open>Init\<close>: no warning is
  logged, the entries after it are never looked at, and \<open>Init\<close> does not return.
\<close>

theorem C8_failed_module_aborts_Init:
  "fst (Init_loop abi (Not_a_library path # rest) st) = Uncaught_exception
   \<and> (collabvm_plugin_abi_version so = None
      \<longrightarrow> fst (Init_loop abi (Library so # rest) st) = Uncaught_exception)
   \<and> fst (Init 1 (plugins_dir [Library lib_no_exports, Library lib_other_abi]) startup)
       = Uncaught_exception
   \<and> logged warn (trace (snd
        (Init 1 (plugins_dir [Library lib_no_exports, Library lib_other_abi]) startup))) = []
   \<and> logged error (trace (snd
        (Init 1 (plugins_dir [Library lib_no_exports, Library lib_other_abi]) startup))) = []
   \<and> logged info (trace (snd
        (Init 1 (plugins_dir [Library lib_no_exports, Library lib_other_abi]) startup)))
       = [''Going to load plugin plugins/libm.so'']
   \<and> fst (Init 1 (plugins_dir [Not_a_library ''plugins/README.txt'', Library lib_other_abi])
        startup) = Uncaught_exception
   \<and> logged warn (trace (snd
        (Init 1 (plugins_dir [Not_a_library ''plugins/README.txt'', Library lib_other_abi])
          startup))) = []
   \<and> fst (Init 1 (plugins_dir [Library lib_other_abi]) startup) = Returns True
   \<and> logged warn (trace (snd (Init 1 (plugins_dir [Library lib_other_abi]) startup)))
       = [''Plugin plugins/old.so failed to load :('']"
proof -
  have "fst (Init_loop abi (Not_a_library path # rest) st) = Uncaught_exception"
    by (simp add: LoadPlugin_def)
  moreover have "collabvm_plugin_abi_version so = None
      \<longrightarrow> fst (Init_loop abi (Library so # rest) st) = Uncaught_exception"
    by (simp add: LoadPlugin_def load_without_abi_version Let_def)
  moreover have "Init 1 (plugins_dir [Library lib_no_exports, Library lib_other_abi]) startup =
    (Uncaught_exception,
     \<lparr>g_PluginSos = replicate 5 None @ [Some lib_no_exports], g_ServerPlugins = [],
      trace = [Log info ''Going to load plugin plugins/libm.so'', Handshake False False,
        Resolve abi_version]\<rparr>)"
    by (simp add: Init_def plugins_dir_def LoadPlugin_no_exports emit_def startup_def
        resize_def)
       (simp add: lib_no_exports_def)
  moreover have "Init 1 (plugins_dir [Not_a_library ''plugins/README.txt'',
      Library lib_other_abi]) startup =
    (Uncaught_exception,
     \<lparr>g_PluginSos = replicate 5 None, g_ServerPlugins = [],
      trace = [Log info ''Going to load plugin plugins/README.txt'']\<rparr>)"
    by (simp add: Init_def plugins_dir_def LoadPlugin_def emit_def startup_def resize_def)
  moreover have "Init 1 (plugins_dir [Library lib_other_abi]) startup =
    (Returns True,
     \<lparr>g_PluginSos = replicate 5 None @ [Some lib_other_abi], g_ServerPlugins = [],
      trace = [Log info ''Going to load plugin plugins/old.so'', Handshake False False,
        Resolve abi_version, Invoke abi_version,
        Log error ''plugin plugins/old.so has an mismatching CollabVM ABI version.'',
        Log warn ''Plugin plugins/old.so failed to load :('']\<rparr>)"
    by (simp add: Init_def plugins_dir_def LoadPlugin_other_abi emit_def startup_def
        resize_def)
       (simp add: lib_other_abi_def)
  ultimately show ?thesis
    by simp
qed

theorem C8_failed_module_witness:
  "collabvm_plugin_abi_version lib_no_exports = None
   \<and> fst (Init_loop 1 [Library lib_no_exports, Library lib_other_abi] startup)
       = Uncaught_exception
   \<and> logged warn (trace (snd
        (Init 1 (plugins_dir [Library lib_no_exports, Library lib_other_abi]) startup))) = []"
  using C8_failed_module_aborts_Init [of 1 "''plugins/README.txt''" "[Library lib_other_abi]"
      startup lib_no_exports]
  by (simp add: lib_no_exports_def)

text \<open>
  Claim C9. If the plugins directory does not exist, initialization creates it without
  treating this as an error; if that creation fails, initialization reports a fatal
  host-startup error rather than success. When the directory is missing and the creation
  works, \<open>Init\<close> logs one line at level info, creates the directory and goes on to the scan
  of the directory as it does when the directory is there; with nothing in it, it returns
  true. When the creation fails, \<^verbatim>\<open>create_directory\<close> throws \<^verbatim>\<open>filesystem_error\<close>, nothing
  in \<open>Init\<close> catches it, and \<open>Init\<close> ends in that exception right after the info line: it
  loads nothing and does not return, so it does not report success.
\<close>

theorem C9_missing_directory_is_created_or_fatal:
  "((\<not> is_directory fs \<or> \<not> exists fs) \<and> create_directory fs = Some created
      \<and> directory_iterator fs = Some entries
    \<longrightarrow> Init abi fs st =
          Init_loop abi entries
           (st\<lparr>g_PluginSos := resize 5 (g_PluginSos st),
               trace := trace st @
                 [Log info ''PluginManager::Init: Plugins folder not found. Creating folder.'',
                  Create_directory]\<rparr>)
        \<and> (entries = [] \<longrightarrow> fst (Init abi fs st) = Returns True
              \<and> since st (snd (Init abi fs st)) =
                 [Log info ''PluginManager::Init: Plugins folder not found. Creating folder.'',
                  Create_directory]))
   \<and> ((\<not> is_directory fs \<or> \<not> exists fs) \<and> create_directory fs = None
    \<longrightarrow> fst (Init abi fs st) = Uncaught_exception
        \<and> fst (Init abi fs st) \<noteq> Returns True
        \<and> since st (snd (Init abi fs st)) =
            [Log info ''PluginManager::Init: Plugins folder not found. Creating folder.'',
             Create_directory]
        \<and> g_ServerPlugins (snd (Init abi fs st)) = g_ServerPlugins st)"
  by (auto simp: Init_def emit_def since_def Let_def)

theorem C9_missing_directory_witness:
  "\<not> is_directory fresh_dir \<and> \<not> exists fresh_dir
   \<and> create_directory fresh_dir = Some True
   \<and> fst (Init 1 fresh_dir startup) = Returns True
   \<and> \<not> is_directory uncreatable_dir \<and> \<not> exists uncreatable_dir
   \<and> create_directory uncreatable_dir = None
   \<and> fst (Init 1 uncreatable_dir startup) = Uncaught_exception"
  using C9_missing_directory_is_created_or_fatal [of fresh_dir True "[]" 1 startup]
    C9_missing_directory_is_created_or_fatal [of uncreatable_dir True "[]" 1 startup]
  by (simp add: fresh_dir_def uncreatable_dir_def)

section \<open>Properties of the configuration store\<close>

text \<open>
  Claim C10. In the configuration store, after setting a 64-bit unsigned integer under key
  "value": \<^verbatim>\<open>Exists()\<close> returns true, \<^verbatim>\<open>Is<uint64>()\<close> returns true (and \<^verbatim>\<open>As<uint64>()\<close>
  yields the value), and \<^verbatim>\<open>As<string>()\<close> fails with \<open>InvalidType\<close>; after \<^verbatim>\<open>Remove()\<close>,
  \<^verbatim>\<open>Exists()\<close> returns false and \<^verbatim>\<open>As<uint64>()\<close> fails with \<open>NonExistentValue\<close>. This
  holds from every store and for every 64-bit value.
\<close>

theorem C10_ConfigStore_value_manipulation:
  "Exists (Set store ''value'' (Unsigned64 v)) ''value''
   \<and> Is T_uint64 (Set store ''value'' (Unsigned64 v)) ''value''
   \<and> As T_uint64 (Set store ''value'' (Unsigned64 v)) ''value'' = Inr (Unsigned64 v)
   \<and> As T_string (Set store ''value'' (Unsigned64 v)) ''value'' = Inl InvalidType
   \<and> \<not> Exists (Remove (Set store ''value'' (Unsigned64 v)) ''value'') ''value''
   \<and> As T_uint64 (Remove (Set store ''value'' (Unsigned64 v)) ''value'') ''value''
       = Inl NonExistentValue"
  by (simp add: Exists_def Set_def As_def Is_def Remove_def)

end
